theory Spec2Isabelle
  imports Complex_Main "HOL-Library.Code_Target_Nat"
begin

section \<open>Dashboard chat hook (frontend, \<^verbatim>\<open>useChat\<close> and \<^verbatim>\<open>sessionsApi\<close>)\<close>

subsection \<open>Strings of the TypeScript code\<close>

text \<open>
  \<^verbatim>\<open>String.prototype.startsWith\<close>: the receiver begins with the given prefix.
\<close>

definition startsWith :: "string \<Rightarrow> string \<Rightarrow> bool" where
  "startsWith s p = (take (length p) s = p)"

text \<open>
  \<^verbatim>\<open>Date.now()\<close> is a number of milliseconds; a template literal prints it in decimal,
  without leading zeros.
\<close>

definition digit_char :: "nat \<Rightarrow> char" where
  "digit_char d = ''0123456789'' ! d"

function number_toString :: "nat \<Rightarrow> string" where
  "number_toString n =
     (if n < 10 then [digit_char n]
      else number_toString (n div 10) @ [digit_char (n mod 10)])"
  by pat_completeness auto
termination
  by (relation "measure (\<lambda>n. n)") auto

declare number_toString.simps [simp del]

subsection \<open>The \<^verbatim>\<open>Message\<close> interface and the optimistic update\<close>

datatype Role = user | assistant | system

record Message =
  msg_id :: string
  msg_session_id :: string
  msg_role :: Role
  msg_content :: string
  msg_provider_used :: "string option"
  msg_tokens_in :: "nat option"
  msg_tokens_out :: "nat option"
  msg_latency_ms :: "nat option"
  msg_tools_called :: "string list"
  msg_correlation_id :: "string option"
  msg_cost_usd :: "string option"
  msg_created_at :: string

text \<open>
  \<^verbatim>\<open>onMutate\<close> of \<^verbatim>\<open>sendMessageMutation\<close>: the state updater appends the optimistic
  user message. \<open>now\<close> is \<^verbatim>\<open>Date.now()\<close>, \<open>stamp\<close> is \<^verbatim>\<open>new Date().toISOString()\<close>,
  \<open>sid\<close> is \<^verbatim>\<open>session!.id\<close>.
\<close>

definition temp_userMessage :: "string \<Rightarrow> string \<Rightarrow> nat \<Rightarrow> string \<Rightarrow> Message" where
  "temp_userMessage sid content now stamp =
     \<lparr> msg_id = ''temp-'' @ number_toString now,
       msg_session_id = sid,
       msg_role = user,
       msg_content = content,
       msg_provider_used = None,
       msg_tokens_in = None,
       msg_tokens_out = None,
       msg_latency_ms = None,
       msg_tools_called = [],
       msg_correlation_id = None,
       msg_cost_usd = None,
       msg_created_at = stamp \<rparr>"

definition onMutate :: "string \<Rightarrow> string \<Rightarrow> nat \<Rightarrow> string \<Rightarrow> Message list \<Rightarrow> Message list" where
  "onMutate sid content now stamp prev = prev @ [temp_userMessage sid content now stamp]"

text \<open>
  \<^verbatim>\<open>onError\<close>: \<^verbatim>\<open>setMessages((prev) => prev.filter(m => !m.id.startsWith('temp-')))\<close>.
\<close>

definition onError :: "Message list \<Rightarrow> Message list" where
  "onError prev = filter (\<lambda>m. \<not> startsWith (msg_id m) ''temp-'') prev"

text \<open>
  \<^verbatim>\<open>onSuccess\<close>: the temporary messages are dropped, the real user message and the
  assistant message of the response are appended.
\<close>

definition real_userMessage :: "string \<Rightarrow> string \<Rightarrow> nat \<Rightarrow> string \<Rightarrow> Message" where
  "real_userMessage sid content now stamp =
     (temp_userMessage sid content now stamp) \<lparr> msg_id := ''user-'' @ number_toString now \<rparr>"

definition onSuccess ::
  "string \<Rightarrow> string \<Rightarrow> Message \<Rightarrow> nat \<Rightarrow> string \<Rightarrow> Message list \<Rightarrow> Message list" where
  "onSuccess sid content assistantMessage now stamp prev =
     filter (\<lambda>m. \<not> startsWith (msg_id m) ''temp-'') prev
       @ [real_userMessage sid content now stamp, assistantMessage]"

text \<open>\<^verbatim>\<open>addMessage\<close>, used by the voice flow of the chat page.\<close>

definition addMessage :: "Message \<Rightarrow> Message list \<Rightarrow> Message list" where
  "addMessage message prev = prev @ [message]"

subsection \<open>The request a dashboard send issues\<close>

record http_config =
  headers :: "(string \<times> string) list"

record http_post =
  post_url :: string
  post_content :: string
  post_config :: "http_config option"

text \<open>
  \<^verbatim>\<open>sessionsApi.sendMessage(sessionId, content, idempotencyKey?)\<close>. The third argument is
  optional; the conditional \<^verbatim>\<open>idempotencyKey ? {...} : undefined\<close> tests JavaScript
  truthiness, so \<^verbatim>\<open>undefined\<close> and the empty string both give no header.
\<close>

definition sessionsApi_sendMessage :: "string \<Rightarrow> string \<Rightarrow> string option \<Rightarrow> http_post" where
  "sessionsApi_sendMessage sessionId content idempotencyKey =
     \<lparr> post_url = ''/api/sessions/'' @ sessionId @ ''/messages'',
       post_content = content,
       post_config =
         (case idempotencyKey of
            None \<Rightarrow> None
          | Some k \<Rightarrow>
              if k \<noteq> [] then Some \<lparr> headers = [(''Idempotency-Key'', k)] \<rparr> else None) \<rparr>"

text \<open>
  \<^verbatim>\<open>mutationFn\<close>: throws \<^verbatim>\<open>Error('No session')\<close> without a session, otherwise posts
  with the key \<^verbatim>\<open>`msg-${Date.now()}`\<close>.
\<close>

datatype js_error = Error string

definition mutationFn :: "string option \<Rightarrow> string \<Rightarrow> nat \<Rightarrow> js_error + http_post" where
  "mutationFn session content now =
     (case session of
        None \<Rightarrow> Inl (Error ''No session'')
      | Some sid \<Rightarrow>
          Inr (sessionsApi_sendMessage sid content (Some (''msg-'' @ number_toString now))))"

text \<open>The header a request carries, as the server's \<^verbatim>\<open>Idempotency-Key\<close> parameter reads it.\<close>

definition idempotency_header :: "http_post \<Rightarrow> string option" where
  "idempotency_header r =
     (case post_config r of
        None \<Rightarrow> None
      | Some c \<Rightarrow> map_of (headers c) ''Idempotency-Key'')"


section \<open>Backend: exceptions\<close>

text \<open>
  The three vendor exceptions the retry decorator lists
  (\<^verbatim>\<open>VendorAHTTPError\<close>, \<^verbatim>\<open>VendorBRateLimitError\<close>, \<^verbatim>\<open>VendorCallTimeout\<close>), and any other
  exception an adapter may raise.
\<close>

datatype vendor_exception =
    VendorAHTTPError nat string
  | VendorBRateLimitError nat
  | VendorCallTimeout
  | OtherException string

datatype exn =
    KeyError string
  | IntegrityError string
  | AllVendorsFailed vendor_exception "vendor_exception option"

section \<open>Backend: billing\<close>

text \<open>
  \<^verbatim>\<open>Decimal\<close> values are modelled as exact rationals. Python's default arithmetic context
  keeps 28 significant digits; with prices in thousandths and token counts that are not
  negative, every quotient, product and sum of \<^verbatim>\<open>calculate_cost\<close> is exact in it as long
  as the cost has fewer than 23 integer digits. Beyond that size the context can no longer
  hold the six fractional digits; that limit is not part of the model.
\<close>

type_synonym Decimal = rat

record price_row =
  input_tokens :: Decimal
  output_tokens :: Decimal

definition PRICING :: "string \<Rightarrow> price_row option" where
  "PRICING =
     [''vendorA'' \<mapsto> \<lparr> input_tokens = 2 / 1000, output_tokens = 2 / 1000 \<rparr>,
      ''vendorB'' \<mapsto> \<lparr> input_tokens = 3 / 1000, output_tokens = 3 / 1000 \<rparr>]"

text \<open>
  \<^verbatim>\<open>Decimal.quantize\<close> rounds with the rounding mode of the context; the source passes
  none and sets none, so it is the default \<^verbatim>\<open>ROUND_HALF_EVEN\<close>.
\<close>

definition ROUND_HALF_EVEN :: "rat \<Rightarrow> int" where
  "ROUND_HALF_EVEN x =
     (let f = \<lfloor>x\<rfloor>; d = x - of_int f
      in if d < 1 / 2 then f
         else if 1 / 2 < d then f + 1
         else if even f then f else f + 1)"

definition quantize :: "Decimal \<Rightarrow> Decimal \<Rightarrow> Decimal" where
  "quantize x q = of_int (ROUND_HALF_EVEN (x / q)) * q"

definition calculate_cost :: "string \<Rightarrow> int \<Rightarrow> int \<Rightarrow> exn + Decimal" where
  "calculate_cost provider tokens_in tokens_out =
     (case PRICING provider of
        None \<Rightarrow> Inl (KeyError provider)
      | Some pricing \<Rightarrow>
          (let input_cost = (of_int tokens_in / 1000) * input_tokens pricing;
               output_cost = (of_int tokens_out / 1000) * output_tokens pricing
           in Inr (quantize (input_cost + output_cost) (1 / 1000000))))"

text \<open>
  The specification's formula, in its own words: \<open>round6\<close> rounds half-up to six
  fractional digits (the amounts are not negative).
\<close>

definition round_half_up :: "rat \<Rightarrow> int" where
  "round_half_up x = \<lfloor>x + 1 / 2\<rfloor>"

definition round6 :: "rat \<Rightarrow> rat" where
  "round6 x = of_int (round_half_up (x * 1000000)) / 1000000"

definition spec_cost :: "rat \<Rightarrow> rat \<Rightarrow> int \<Rightarrow> int \<Rightarrow> rat" where
  "spec_cost pricePerKIn pricePerKOut tokensIn tokensOut =
     round6 ((of_int tokensIn / 1000) * pricePerKIn + (of_int tokensOut / 1000) * pricePerKOut)"

section \<open>Backend: vendor adapters and the resilient caller\<close>

record NormalizedResponse =
  nr_text :: string
  nr_tokens_in :: int
  nr_tokens_out :: int
  nr_latency_ms :: nat

record VendorRequest =
  vr_content :: string
  vr_system_prompt :: string
  vr_tenant_id :: string
  vr_agent_id :: string

text \<open>
  An adapter answers the \<open>k\<close>-th call of one logical request (counted from 1) after
  \<open>vc_elapsed_ms\<close> milliseconds, with its normalized response or with an exception. The
  adapters of the source draw their failures at random; here the draw is a parameter.
\<close>

record vendor_call =
  vc_elapsed_ms :: nat
  vc_outcome :: "vendor_exception + NormalizedResponse"

record VendorAdapter =
  va_provider :: string
  va_call :: "VendorRequest \<Rightarrow> nat \<Rightarrow> vendor_call"

text \<open>
  The status strings of \<^verbatim>\<open>provider_calls\<close> in the source: \<^verbatim>\<open>retry\<close> (the
  specification calls it \<^verbatim>\<open>retrying\<close>), \<^verbatim>\<open>fallback\<close>, \<^verbatim>\<open>success\<close> and \<^verbatim>\<open>error\<close>.
\<close>

datatype call_status = retry | fallback | success | error

record provider_call =
  pc_correlation_id :: string
  pc_provider :: string
  pc_attempt_number :: nat
  pc_status :: call_status
  pc_latency_ms :: nat

record sleep_entry =
  sl_provider :: string
  sl_after_attempt :: nat
  sl_ms :: nat

text \<open>
  The state of the backend: the tables of the database (the rows that are committed)
  and the waits the caller has made (\<^verbatim>\<open>asyncio.sleep\<close> and the decorator's
  back-off).
\<close>

record message_row =
  mr_id :: string
  mr_session_id :: string
  mr_role :: Role
  mr_content :: string
  mr_provider_used :: "string option"
  mr_tokens_in :: "int option"
  mr_tokens_out :: "int option"
  mr_latency_ms :: "nat option"
  mr_correlation_id :: string

record usage_event =
  ue_tenant_id :: string
  ue_agent_id :: string
  ue_session_id :: string
  ue_message_id :: string
  ue_provider :: string
  ue_tokens_in :: int
  ue_tokens_out :: int
  ue_cost_usd :: Decimal
  ue_event_type :: string
  ue_created_at :: nat

text \<open>The body the endpoint returns: message details, cost and correlation id.\<close>

record response_body =
  rb_message_id :: string
  rb_content :: string
  rb_provider_used :: string
  rb_tokens_in :: int
  rb_tokens_out :: int
  rb_latency_ms :: nat
  rb_cost_usd :: Decimal
  rb_correlation_id :: string

text \<open>
  A row of \<^verbatim>\<open>idempotency_keys\<close>: \<^verbatim>\<open>key VARCHAR(255) PRIMARY KEY, tenant_id, response,
  created_at, expires_at\<close>.
\<close>

record idempotency_row =
  ik_key :: string
  ik_tenant_id :: string
  ik_response :: response_body
  ik_created_at :: nat
  ik_expires_at :: nat

record backend =
  provider_calls :: "provider_call list"
  sleeps :: "sleep_entry list"
  messages :: "message_row list"
  usage_events :: "usage_event list"
  idempotency_keys :: "idempotency_row list"

subsection \<open>Layer 1: timeout\<close>

text \<open>
  \<^verbatim>\<open>asyncio.wait_for(vendor.call(request), timeout=10)\<close>: a call that has not answered
  after ten seconds is abandoned and surfaces as \<^verbatim>\<open>VendorCallTimeout\<close>.
\<close>

definition timeout_ms :: nat where
  "timeout_ms = 10000"

definition call_with_timeout :: "VendorAdapter \<Rightarrow> VendorRequest \<Rightarrow> nat \<Rightarrow> vendor_call" where
  "call_with_timeout vendor request k =
     (let c = va_call vendor request k
      in if timeout_ms < vc_elapsed_ms c
         then \<lparr> vc_elapsed_ms = timeout_ms, vc_outcome = Inl VendorCallTimeout \<rparr>
         else c)"

subsection \<open>Layer 2: retry with exponential back-off\<close>

text \<open>
  The decorator of \<^verbatim>\<open>_call_with_retry\<close>:
  \<^verbatim>\<open>stop=stop_after_attempt(3)\<close>,
  \<^verbatim>\<open>wait=wait_exponential(multiplier=1, min=1, max=10)\<close>,
  \<^verbatim>\<open>retry=retry_if_exception_type((VendorAHTTPError, VendorBRateLimitError, VendorCallTimeout))\<close>,
  \<^verbatim>\<open>reraise=True\<close>.
  After the attempt numbered \<open>attempt_number\<close> has failed, \<^verbatim>\<open>wait_exponential\<close> gives
  \<open>multiplier * 2 ^ (attempt_number - 1)\<close> seconds, clamped between \<open>min\<close> and \<open>max\<close>
  (the schedule of the source: 1s, 2s, 4s).
\<close>

definition max_attempts :: nat where
  "max_attempts = 3"

definition stop_after_attempt :: "nat \<Rightarrow> nat \<Rightarrow> bool" where
  "stop_after_attempt max_attempt_number attempt_number = (max_attempt_number \<le> attempt_number)"

definition wait_exponential :: "nat \<Rightarrow> nat \<Rightarrow> nat \<Rightarrow> nat \<Rightarrow> nat" where
  "wait_exponential multiplier min_wait max_wait attempt_number =
     max (max 0 min_wait) (min (multiplier * 2 ^ (attempt_number - 1)) max_wait)"

definition backoff_ms :: "nat \<Rightarrow> nat" where
  "backoff_ms attempt_number = 1000 * wait_exponential 1 1 10 attempt_number"

definition retry_if_exception_type :: "vendor_exception \<Rightarrow> bool" where
  "retry_if_exception_type e =
     (case e of
        VendorAHTTPError code msg \<Rightarrow> True
      | VendorBRateLimitError retry_after_ms \<Rightarrow> True
      | VendorCallTimeout \<Rightarrow> True
      | OtherException msg \<Rightarrow> False)"

definition log_provider_call ::
  "string \<Rightarrow> string \<Rightarrow> nat \<Rightarrow> call_status \<Rightarrow> nat \<Rightarrow> backend \<Rightarrow> backend" where
  "log_provider_call correlation_id provider attempt_number status latency_ms s =
     s \<lparr> provider_calls := provider_calls s @
           [\<lparr> pc_correlation_id = correlation_id, pc_provider = provider,
              pc_attempt_number = attempt_number, pc_status = status,
              pc_latency_ms = latency_ms \<rparr>] \<rparr>"

definition asyncio_sleep :: "string \<Rightarrow> nat \<Rightarrow> nat \<Rightarrow> backend \<Rightarrow> backend" where
  "asyncio_sleep provider after_attempt ms s =
     s \<lparr> sleeps := sleeps s @
           [\<lparr> sl_provider = provider, sl_after_attempt = after_attempt, sl_ms = ms \<rparr>] \<rparr>"

text \<open>
  The special handling of rate limits inside the retried function:
  \<^verbatim>\<open>if isinstance(e, VendorBRateLimitError): await asyncio.sleep(e.retry_after_ms / 1000)\<close>.
  Waits are kept in milliseconds.
\<close>

definition respect_retry_after :: "string \<Rightarrow> nat \<Rightarrow> vendor_exception \<Rightarrow> backend \<Rightarrow> backend" where
  "respect_retry_after provider k e s =
     (case e of
        VendorBRateLimitError retry_after_ms \<Rightarrow> asyncio_sleep provider k retry_after_ms s
      | _ \<Rightarrow> s)"

text \<open>
  Modelled from the spec: the body of \<^verbatim>\<open>_call_with_retry\<close> is not in the source (the
  documentation shows \<^verbatim>\<open>pass\<close> and the comment "Logs each attempt to provider_calls
  table"). One execution of the body is one attempt: it calls the vendor under the
  timeout and appends one \<^verbatim>\<open>provider_calls\<close> row, \<^verbatim>\<open>success\<close> for an answer,
  \<^verbatim>\<open>retry\<close> for a failure that will be retried and \<^verbatim>\<open>error\<close> for the last failure, as
  in the audit example of the source; on a rate limit it sleeps as the fragment above
  says and re-raises. \<open>n\<close> is the attempt number written to the row, \<open>k\<close> counts the
  decorator's attempts.
\<close>

definition call_attempt ::
  "VendorAdapter \<Rightarrow> VendorRequest \<Rightarrow> string \<Rightarrow> nat \<Rightarrow> nat \<Rightarrow> backend
     \<Rightarrow> (vendor_exception + NormalizedResponse) \<times> backend" where
  "call_attempt vendor request correlation_id n k s =
     (let c = call_with_timeout vendor request k
      in case vc_outcome c of
           Inr response \<Rightarrow>
             (Inr response,
              log_provider_call correlation_id (va_provider vendor) n success (vc_elapsed_ms c) s)
         | Inl e \<Rightarrow>
             (Inl e,
              respect_retry_after (va_provider vendor) k e
                (log_provider_call correlation_id (va_provider vendor) n
                   (if retry_if_exception_type e \<and> \<not> stop_after_attempt max_attempts k
                    then retry else error)
                   (vc_elapsed_ms c) s)))"

text \<open>
  The decorator's loop: an attempt that raises one of the listed exceptions is repeated
  after the exponential wait, until the third attempt; then, and for any other
  exception, the exception is re-raised.
\<close>

function retry_from ::
  "VendorAdapter \<Rightarrow> VendorRequest \<Rightarrow> string \<Rightarrow> nat \<Rightarrow> nat \<Rightarrow> backend
     \<Rightarrow> (vendor_exception + NormalizedResponse) \<times> backend" where
  "retry_from vendor request correlation_id n k s =
     (case call_attempt vendor request correlation_id n k s of
        (Inr response, s1) \<Rightarrow> (Inr response, s1)
      | (Inl e, s1) \<Rightarrow>
          if retry_if_exception_type e \<and> \<not> stop_after_attempt max_attempts k
          then retry_from vendor request correlation_id (Suc n) (Suc k)
                 (asyncio_sleep (va_provider vendor) k (backoff_ms k) s1)
          else (Inl e, s1))"
  by pat_completeness auto
termination
  by (relation "measure (\<lambda>(vendor, request, correlation_id, n, k, s). max_attempts - k)")
     (auto simp: stop_after_attempt_def)

declare retry_from.simps [simp del]

definition call_with_retry ::
  "VendorAdapter \<Rightarrow> VendorRequest \<Rightarrow> string \<Rightarrow> nat \<Rightarrow> backend
     \<Rightarrow> (vendor_exception + NormalizedResponse) \<times> backend" where
  "call_with_retry vendor request correlation_id attempt_number s =
     retry_from vendor request correlation_id attempt_number 1 s"

subsection \<open>Layer 3: fallback provider\<close>

text \<open>
  Modelled from the spec: \<^verbatim>\<open>log_fallback_event()\<close> is called in the source and not
  defined there. It logs the \<^verbatim>\<open>fallback\<close> status record before the first fallback
  attempt; the row is the one of the audit example of the source,
  \<^verbatim>\<open>vendorB | 1 | fallback | 0\<close>, and the fallback's calls continue that numbering
  (\<^verbatim>\<open>vendorB | 2 | success\<close>).
\<close>

definition log_fallback_event :: "VendorAdapter \<Rightarrow> string \<Rightarrow> backend \<Rightarrow> backend" where
  "log_fallback_event fallback_vendor correlation_id s =
     log_provider_call correlation_id (va_provider fallback_vendor) 1 fallback 0 s"

text \<open>
  \<^verbatim>\<open>call_with_fallback(primary, fallback, request)\<close>, as the first architecture
  document has it. The result carries the name of the provider that answered. (The
  second architecture document abridges the function: its sketch has neither the
  fallback event nor the inner \<^verbatim>\<open>try\<close>.)
\<close>

definition call_with_fallback ::
  "VendorAdapter \<Rightarrow> VendorAdapter option \<Rightarrow> VendorRequest \<Rightarrow> string \<Rightarrow> backend
     \<Rightarrow> (exn + NormalizedResponse \<times> string) \<times> backend" where
  "call_with_fallback primary fallback_opt request correlation_id s =
     (case call_with_retry primary request correlation_id 1 s of
        (Inr response, s1) \<Rightarrow> (Inr (response, va_provider primary), s1)
      | (Inl primary_error, s1) \<Rightarrow>
          (case fallback_opt of
             None \<Rightarrow> (Inl (AllVendorsFailed primary_error None), s1)
           | Some fallback_vendor \<Rightarrow>
               (case call_with_retry fallback_vendor request correlation_id 2
                       (log_fallback_event fallback_vendor correlation_id s1) of
                  (Inr response, s2) \<Rightarrow> (Inr (response, va_provider fallback_vendor), s2)
                | (Inl fallback_error, s2) \<Rightarrow>
                    (Inl (AllVendorsFailed primary_error (Some fallback_error)), s2))))"

section \<open>Backend: the message orchestrator\<close>

record agent_config =
  ag_id :: string
  ag_primary :: VendorAdapter
  ag_fallback :: "VendorAdapter option"
  ag_system_prompt :: string

text \<open>
  One request to \<^verbatim>\<open>POST /api/sessions/{session_id}/messages\<close>, after authentication:
  the tenant, the session and its agent, the content, the correlation id, the server's
  clock in milliseconds and the fresh identifiers of the two message rows.
\<close>

record send_request =
  sr_tenant_id :: string
  sr_session_id :: string
  sr_agent :: agent_config
  sr_content :: string
  sr_correlation_id :: string
  sr_now :: nat
  sr_user_message_id :: string
  sr_assistant_message_id :: string

subsection \<open>The database session\<close>

text \<open>
  Every request has a database session of its own. \<^verbatim>\<open>db.add\<close> puts a row into the
  session, \<^verbatim>\<open>db.commit()\<close> writes every row of the session to the tables in one
  transaction; a request that ends in an exception leaves its session uncommitted, and
  the rows it had added are dropped with the session.
\<close>

record db_session =
  added_messages :: "message_row list"
  added_usage_events :: "usage_event list"

definition new_session :: db_session where
  "new_session = \<lparr> added_messages = [], added_usage_events = [] \<rparr>"

definition db_add_message :: "message_row \<Rightarrow> db_session \<Rightarrow> db_session" where
  "db_add_message m db = db \<lparr> added_messages := added_messages db @ [m] \<rparr>"

definition db_add_usage_event :: "usage_event \<Rightarrow> db_session \<Rightarrow> db_session" where
  "db_add_usage_event u db = db \<lparr> added_usage_events := added_usage_events db @ [u] \<rparr>"

definition db_commit :: "db_session \<Rightarrow> backend \<Rightarrow> backend" where
  "db_commit db s =
     s \<lparr> messages := messages s @ added_messages db,
         usage_events := usage_events s @ added_usage_events db \<rparr>"

subsection \<open>Handling one message\<close>

definition user_message_row :: "send_request \<Rightarrow> message_row" where
  "user_message_row req =
     \<lparr> mr_id = sr_user_message_id req, mr_session_id = sr_session_id req, mr_role = user,
       mr_content = sr_content req, mr_provider_used = None, mr_tokens_in = None,
       mr_tokens_out = None, mr_latency_ms = None,
       mr_correlation_id = sr_correlation_id req \<rparr>"

definition assistant_message_row ::
  "send_request \<Rightarrow> NormalizedResponse \<Rightarrow> string \<Rightarrow> message_row" where
  "assistant_message_row req response provider =
     \<lparr> mr_id = sr_assistant_message_id req, mr_session_id = sr_session_id req,
       mr_role = assistant, mr_content = nr_text response, mr_provider_used = Some provider,
       mr_tokens_in = Some (nr_tokens_in response),
       mr_tokens_out = Some (nr_tokens_out response),
       mr_latency_ms = Some (nr_latency_ms response),
       mr_correlation_id = sr_correlation_id req \<rparr>"

definition usage_event_row ::
  "send_request \<Rightarrow> NormalizedResponse \<Rightarrow> string \<Rightarrow> Decimal \<Rightarrow> usage_event" where
  "usage_event_row req response provider cost =
     \<lparr> ue_tenant_id = sr_tenant_id req, ue_agent_id = ag_id (sr_agent req),
       ue_session_id = sr_session_id req, ue_message_id = sr_assistant_message_id req,
       ue_provider = provider, ue_tokens_in = nr_tokens_in response,
       ue_tokens_out = nr_tokens_out response, ue_cost_usd = cost,
       ue_event_type = ''message'', ue_created_at = sr_now req \<rparr>"

definition response_of ::
  "send_request \<Rightarrow> NormalizedResponse \<Rightarrow> string \<Rightarrow> Decimal \<Rightarrow> response_body" where
  "response_of req response provider cost =
     \<lparr> rb_message_id = sr_assistant_message_id req, rb_content = nr_text response,
       rb_provider_used = provider, rb_tokens_in = nr_tokens_in response,
       rb_tokens_out = nr_tokens_out response, rb_latency_ms = nr_latency_ms response,
       rb_cost_usd = cost, rb_correlation_id = sr_correlation_id req \<rparr>"

definition vendor_request_of :: "send_request \<Rightarrow> VendorRequest" where
  "vendor_request_of req =
     \<lparr> vr_content = sr_content req, vr_system_prompt = ag_system_prompt (sr_agent req),
       vr_tenant_id = sr_tenant_id req, vr_agent_id = ag_id (sr_agent req) \<rparr>"

text \<open>
  Modelled from the spec: \<^verbatim>\<open>handle_message\<close> is not in the source. Its steps are those of
  the request flow of the architecture document (5: create the user message record and
  prepare the vendor request; 6 and 7: the resilient caller; 9: insert the assistant
  message; 10: calculate the cost and insert the usage event, \<^verbatim>\<open>db.add(usage_event);
  db.commit()\<close>), with the commit boundary of the specification: the rows of one send
  are committed together, and a send that fails commits none. Tool evaluation (step 8)
  is an external collaborator and is left out; it runs before the assistant message is
  added.
\<close>

definition handle_message :: "send_request \<Rightarrow> backend \<Rightarrow> (exn + response_body) \<times> backend" where
  "handle_message req s =
     (let agent = sr_agent req;
          request = vendor_request_of req;
          db1 = db_add_message (user_message_row req) new_session
      in case call_with_fallback (ag_primary agent) (ag_fallback agent) request
                (sr_correlation_id req) s of
           (Inl e, s1) \<Rightarrow> (Inl e, s1)
         | (Inr (response, provider), s1) \<Rightarrow>
             (let db2 = db_add_message (assistant_message_row req response provider) db1
              in case calculate_cost provider (nr_tokens_in response) (nr_tokens_out response) of
                   Inl e \<Rightarrow> (Inl e, s1)
                 | Inr cost \<Rightarrow>
                     (let db3 = db_add_usage_event
                                  (usage_event_row req response provider cost) db2
                      in (Inr (response_of req response provider cost), db_commit db3 s1))))"

subsection \<open>The idempotency cache\<close>

text \<open>
  Modelled from the spec: \<^verbatim>\<open>get_cached_response(idempotency_key, tenant_id)\<close> is not in
  the source. It is the specification's \<open>lookup(tenantId, key)\<close> on the table
  \<^verbatim>\<open>idempotency_keys\<close> of the source: the row of that key and tenant, and an expired
  row counts as absent.
\<close>

definition get_cached_response :: "string \<Rightarrow> string \<Rightarrow> nat \<Rightarrow> backend \<Rightarrow> response_body option" where
  "get_cached_response idempotency_key tenant_id now s =
     (case find (\<lambda>r. ik_key r = idempotency_key \<and> ik_tenant_id r = tenant_id)
             (idempotency_keys s) of
        None \<Rightarrow> None
      | Some r \<Rightarrow> if ik_expires_at r \<le> now then None else Some (ik_response r))"

text \<open>
  Modelled from the spec: \<^verbatim>\<open>cache_response(idempotency_key, response, ttl_hours=24)\<close> is
  not in the source. It is step 11 of the request flow,
  \<^verbatim>\<open>INSERT INTO idempotency_keys (key, response, expires_at)\<close>, on the table whose
  primary key is the column \<^verbatim>\<open>key\<close>: an insert under a key some row already has violates
  the constraint. A request without a key caches nothing.
\<close>

definition ttl_ms :: "nat \<Rightarrow> nat" where
  "ttl_ms ttl_hours = ttl_hours * 3600000"

definition cache_response ::
  "string option \<Rightarrow> string \<Rightarrow> response_body \<Rightarrow> nat \<Rightarrow> nat \<Rightarrow> backend \<Rightarrow> exn + backend" where
  "cache_response idempotency_key tenant_id response ttl_hours now s =
     (case idempotency_key of
        None \<Rightarrow> Inr s
      | Some k \<Rightarrow>
          if k = [] then Inr s
          else if k \<in> set (map ik_key (idempotency_keys s)) then Inl (IntegrityError k)
          else Inr (s \<lparr> idempotency_keys := idempotency_keys s @
                      [\<lparr> ik_key = k, ik_tenant_id = tenant_id, ik_response = response,
                         ik_created_at = now, ik_expires_at = now + ttl_ms ttl_hours \<rparr>] \<rparr>))"

text \<open>
  \<^verbatim>\<open>send_message(idempotency_key: Optional[str])\<close>, statement by statement. The test
  \<^verbatim>\<open>if idempotency_key:\<close> is Python truthiness: no header and an empty header both
  skip the cache. The test \<^verbatim>\<open>if cached:\<close> is true of every response body.
\<close>

definition cache_lookup :: "string option \<Rightarrow> send_request \<Rightarrow> backend \<Rightarrow> response_body option" where
  "cache_lookup idempotency_key req s =
     (case idempotency_key of
        None \<Rightarrow> None
      | Some k \<Rightarrow>
          if k \<noteq> [] then get_cached_response k (sr_tenant_id req) (sr_now req) s
          else None)"

definition cache_store ::
  "string option \<Rightarrow> send_request \<Rightarrow> response_body \<Rightarrow> backend
     \<Rightarrow> (exn + response_body) \<times> backend" where
  "cache_store idempotency_key req response s =
     (case cache_response idempotency_key (sr_tenant_id req) response 24 (sr_now req) s of
        Inl e \<Rightarrow> (Inl e, s)
      | Inr s1 \<Rightarrow> (Inr response, s1))"

definition send_message ::
  "string option \<Rightarrow> send_request \<Rightarrow> backend \<Rightarrow> (exn + response_body) \<times> backend" where
  "send_message idempotency_key req s =
     (case cache_lookup idempotency_key req s of
        Some cached \<Rightarrow> (Inr cached, s)
      | None \<Rightarrow>
          (case handle_message req s of
             (Inl e, s1) \<Rightarrow> (Inl e, s1)
           | (Inr response, s1) \<Rightarrow> cache_store idempotency_key req response s1))"

text \<open>
  Two requests in flight at once. \<^verbatim>\<open>send_message\<close> is a coroutine: between its lookup
  and its store it awaits \<^verbatim>\<open>handle_message\<close>, and the event loop can run the lookup of
  another request there. This is the schedule in which both lookups miss before either
  response is stored; when a lookup hits, that request returns at once and the two run
  one after the other.
\<close>

definition overlapping_sends ::
  "string option \<Rightarrow> send_request \<Rightarrow> send_request \<Rightarrow> backend
     \<Rightarrow> ((exn + response_body) \<times> (exn + response_body)) \<times> backend" where
  "overlapping_sends idempotency_key req1 req2 s =
     (case (cache_lookup idempotency_key req1 s, cache_lookup idempotency_key req2 s) of
        (None, None) \<Rightarrow>
          (case handle_message req1 s of
             (r1, s1) \<Rightarrow>
               (case handle_message req2 s1 of
                  (r2, s2) \<Rightarrow>
                    (case (case r1 of
                             Inl e \<Rightarrow> (Inl e, s2)
                           | Inr response \<Rightarrow> cache_store idempotency_key req1 response s2) of
                       (o1, s3) \<Rightarrow>
                         (case (case r2 of
                                  Inl e \<Rightarrow> (Inl e, s3)
                                | Inr response \<Rightarrow>
                                    cache_store idempotency_key req2 response s3) of
                            (o2, s4) \<Rightarrow> ((o1, o2), s4)))))
      | _ \<Rightarrow>
          (case send_message idempotency_key req1 s of
             (o1, s1) \<Rightarrow>
               (case send_message idempotency_key req2 s1 of
                  (o2, s2) \<Rightarrow> ((o1, o2), s2))))"

section \<open>Vocabulary of the properties\<close>

text \<open>What the \<open>k\<close>-th call of an adapter gives once the timeout has been applied.\<close>

definition attempt_outcome ::
  "VendorAdapter \<Rightarrow> VendorRequest \<Rightarrow> nat \<Rightarrow> vendor_exception + NormalizedResponse" where
  "attempt_outcome vendor request k = vc_outcome (call_with_timeout vendor request k)"

text \<open>The decorator repeats the call after attempt \<open>k\<close>.\<close>

definition retries :: "VendorAdapter \<Rightarrow> VendorRequest \<Rightarrow> nat \<Rightarrow> bool" where
  "retries vendor request k =
     (case attempt_outcome vendor request k of
        Inl e \<Rightarrow> retry_if_exception_type e \<and> \<not> stop_after_attempt max_attempts k
      | Inr response \<Rightarrow> False)"

text \<open>The \<^verbatim>\<open>retry_after_ms\<close> of a rate-limited attempt, and 0 for any other outcome.\<close>

definition retry_after_of :: "vendor_exception + NormalizedResponse \<Rightarrow> nat" where
  "retry_after_of outcome =
     (case outcome of
        Inl (VendorBRateLimitError retry_after_ms) \<Rightarrow> retry_after_ms
      | _ \<Rightarrow> 0)"

text \<open>
  An adapter exhausts its attempts: every attempt but the last is repeated, and the last
  one fails with \<open>e\<close>.
\<close>

definition exhausts :: "VendorAdapter \<Rightarrow> VendorRequest \<Rightarrow> vendor_exception \<Rightarrow> bool" where
  "exhausts vendor request e =
     ((\<forall>k \<in> {1 ..< max_attempts}. retries vendor request k)
      \<and> attempt_outcome vendor request max_attempts = Inl e)"

text \<open>
  The milliseconds waited for a provider after its attempt \<open>k\<close> failed, and the delay
  before its attempt \<open>n\<close>, which is the wait after attempt \<open>n - 1\<close>.
\<close>

definition waited_after :: "string \<Rightarrow> nat \<Rightarrow> backend \<Rightarrow> nat" where
  "waited_after provider k s =
     sum_list (map sl_ms
       (filter (\<lambda>e. sl_provider e = provider \<and> sl_after_attempt e = k) (sleeps s)))"

definition delay_before_attempt :: "string \<Rightarrow> nat \<Rightarrow> backend \<Rightarrow> nat" where
  "delay_before_attempt provider n s = waited_after provider (n - 1) s"

text \<open>Provider, attempt number and status of an audit row, as the audit query lists them.\<close>

definition audit_line :: "provider_call \<Rightarrow> string \<times> nat \<times> call_status" where
  "audit_line x = (pc_provider x, pc_attempt_number x, pc_status x)"

text \<open>
  The \<^verbatim>\<open>Idempotency-Key\<close> header of the request that a send of the dashboard chat
  issues, which is the \<^verbatim>\<open>idempotency_key\<close> the endpoint receives.
\<close>

definition dashboard_key :: "string option \<Rightarrow> string \<Rightarrow> nat \<Rightarrow> string option" where
  "dashboard_key session content now =
     (case mutationFn session content now of
        Inl e \<Rightarrow> None
      | Inr post \<Rightarrow> idempotency_header post)"

text \<open>Calls repeated with one idempotency key, one after the other.\<close>

fun repeated_calls ::
  "string option \<Rightarrow> send_request list \<Rightarrow> backend \<Rightarrow> (exn + response_body) list \<times> backend" where
  "repeated_calls idempotency_key [] s = ([], s)"
| "repeated_calls idempotency_key (req # reqs) s =
     (case send_message idempotency_key req s of
        (result, s1) \<Rightarrow>
          (case repeated_calls idempotency_key reqs s1 of
             (results, s2) \<Rightarrow> (result # results, s2)))"

subsection \<open>Scenarios\<close>

definition greeting :: Message where
  "greeting =
     \<lparr> msg_id = ''7f3c'', msg_session_id = ''s1'', msg_role = assistant,
       msg_content = ''Hello'', msg_provider_used = Some ''vendorA'',
       msg_tokens_in = Some 100, msg_tokens_out = Some 150, msg_latency_ms = Some 234,
       msg_tools_called = [], msg_correlation_id = Some ''abc-123'',
       msg_cost_usd = Some ''0.000500'', msg_created_at = ''2026-01-01T00:00:00.000Z'' \<rparr>"

definition empty_backend :: backend where
  "empty_backend =
     \<lparr> provider_calls = [], sleeps = [], messages = [], usage_events = [],
       idempotency_keys = [] \<rparr>"

definition invoice_request :: VendorRequest where
  "invoice_request =
     \<lparr> vr_content = ''What is invoice INV-001 status?'', vr_system_prompt = ''You help.'',
       vr_tenant_id = ''tenantA'', vr_agent_id = ''agent1'' \<rparr>"

definition answer :: NormalizedResponse where
  "answer = \<lparr> nr_text = ''Paid.'', nr_tokens_in = 500, nr_tokens_out = 300, nr_latency_ms = 340 \<rparr>"

definition http_500 :: "nat \<Rightarrow> vendor_call" where
  "http_500 ms = \<lparr> vc_elapsed_ms = ms, vc_outcome = Inl (VendorAHTTPError 500 ''Internal Server Error'') \<rparr>"

definition rate_limited :: "nat \<Rightarrow> vendor_call" where
  "rate_limited ms = \<lparr> vc_elapsed_ms = ms, vc_outcome = Inl (VendorBRateLimitError 2000) \<rparr>"

definition answers :: "nat \<Rightarrow> vendor_call" where
  "answers ms = \<lparr> vc_elapsed_ms = ms, vc_outcome = Inr answer \<rparr>"

text \<open>VendorA failing on every call, and VendorA failing twice before it answers.\<close>

definition vendorA_down :: VendorAdapter where
  "vendorA_down =
     \<lparr> va_provider = ''vendorA'',
       va_call = (\<lambda>request k. if k = 1 then http_500 120 else if k = 2 then http_500 250
                              else http_500 180) \<rparr>"

definition vendorA_flaky :: VendorAdapter where
  "vendorA_flaky =
     \<lparr> va_provider = ''vendorA'',
       va_call = (\<lambda>request k. if k = 1 then http_500 120 else if k = 2 then http_500 250
                              else answers 180) \<rparr>"

text \<open>
  VendorB answering at once, VendorB rate-limited once before it answers, and VendorB
  rate-limited on every call.
\<close>

definition vendorB_up :: VendorAdapter where
  "vendorB_up = \<lparr> va_provider = ''vendorB'', va_call = (\<lambda>request k. answers 340) \<rparr>"

definition vendorB_limited :: VendorAdapter where
  "vendorB_limited =
     \<lparr> va_provider = ''vendorB'',
       va_call = (\<lambda>request k. if k = 1 then rate_limited 15 else answers 340) \<rparr>"

definition vendorB_down :: VendorAdapter where
  "vendorB_down = \<lparr> va_provider = ''vendorB'', va_call = (\<lambda>request k. rate_limited 15) \<rparr>"

text \<open>An adapter whose provider has no entry in \<^verbatim>\<open>PRICING\<close>.\<close>

definition vendorC_up :: VendorAdapter where
  "vendorC_up = \<lparr> va_provider = ''vendorC'', va_call = (\<lambda>request k. answers 90) \<rparr>"

definition agent_of :: "VendorAdapter \<Rightarrow> VendorAdapter option \<Rightarrow> agent_config" where
  "agent_of primary fallback_opt =
     \<lparr> ag_id = ''agent1'', ag_primary = primary, ag_fallback = fallback_opt,
       ag_system_prompt = ''You help.'' \<rparr>"

definition send_of :: "string \<Rightarrow> agent_config \<Rightarrow> nat \<Rightarrow> string \<Rightarrow> send_request" where
  "send_of tenant agent now tag =
     \<lparr> sr_tenant_id = tenant, sr_session_id = ''s1'', sr_agent = agent,
       sr_content = ''What is invoice INV-001 status?'', sr_correlation_id = ''abc-123'',
       sr_now = now, sr_user_message_id = ''u-'' @ tag, sr_assistant_message_id = ''a-'' @ tag \<rparr>"

definition cached_body :: response_body where
  "cached_body =
     \<lparr> rb_message_id = ''a-1'', rb_content = ''Paid.'', rb_provider_used = ''vendorA'',
       rb_tokens_in = 500, rb_tokens_out = 300, rb_latency_ms = 340,
       rb_cost_usd = 1600 / 1000000, rb_correlation_id = ''abc-123'' \<rparr>"

text \<open>
  The table after tenant A has cached a response under the key \<^verbatim>\<open>k1\<close> at time 1000,
  and the response of another tenant.
\<close>

definition tenantA_stored :: backend where
  "tenantA_stored =
     empty_backend \<lparr> idempotency_keys :=
       [\<lparr> ik_key = ''k1'', ik_tenant_id = ''tenantA'', ik_response = cached_body,
          ik_created_at = 1000, ik_expires_at = 86401000 \<rparr>] \<rparr>"

definition other_body :: response_body where
  "other_body =
     \<lparr> rb_message_id = ''a-9'', rb_content = ''Overdue.'', rb_provider_used = ''vendorB'',
       rb_tokens_in = 100, rb_tokens_out = 150, rb_latency_ms = 340,
       rb_cost_usd = 750 / 1000000, rb_correlation_id = ''xyz-789'' \<rparr>"

text \<open>The sends of the scenarios.\<close>

definition flaky_send :: send_request where
  "flaky_send = send_of ''tenantA'' (agent_of vendorA_flaky (Some vendorB_up)) 1000 ''1''"

definition priceless_send :: send_request where
  "priceless_send = send_of ''tenantA'' (agent_of vendorC_up None) 1000 ''1''"

definition first_send :: send_request where
  "first_send = send_of ''tenantA'' (agent_of vendorB_up None) 5000 ''1''"

definition second_send :: send_request where
  "second_send = send_of ''tenantA'' (agent_of vendorA_down None) 5004 ''2''"

definition overlapping_send :: send_request where
  "overlapping_send = send_of ''tenantA'' (agent_of vendorB_up None) 5000 ''2''"

definition tenantB_send :: send_request where
  "tenantB_send = send_of ''tenantB'' (agent_of vendorB_up None) 2000 ''9''"

section \<open>The optimistic update of the chat\<close>

lemma startsWith_temp_id [simp]:
  "startsWith (msg_id (temp_userMessage sid content now stamp)) ''temp-''"
  by (simp add: startsWith_def temp_userMessage_def)




section \<open>The cost of a message\<close>

lemma floor_rat_numeral [simp]:
  "\<lfloor>(numeral a :: rat) / numeral b\<rfloor> = numeral a div numeral b"
  using floor_divide_of_int_eq [of "numeral a" "numeral b", where ?'a = rat] by simp

lemma floor_rat_one [simp]:
  "\<lfloor>(1 :: rat) / numeral b\<rfloor> = 1 div numeral b"
  using floor_divide_of_int_eq [of 1 "numeral b", where ?'a = rat] by simp

lemma ROUND_HALF_EVEN_of_int [simp]: "ROUND_HALF_EVEN (of_int m) = m"
  by (simp add: ROUND_HALF_EVEN_def Let_def)

lemma round_half_up_of_int [simp]: "round_half_up (of_int m) = m"
  unfolding round_half_up_def by (simp add: floor_eq_iff)

lemma quantize_micro: "quantize (of_int m / 1000000) (1 / 1000000) = of_int m / 1000000"
  by (simp add: quantize_def)

lemma round6_micro: "round6 (of_int m / 1000000) = of_int m / 1000000"
  by (simp add: round6_def)

lemma cost_sum_micro:
  "(of_int a / 1000) * (of_int p / 1000) + (of_int b / 1000) * (of_int q / 1000)
     = (of_int (a * p + b * q) :: rat) / 1000000"
  by (simp add: field_simps)

text \<open>Both prices of a provider in \<^verbatim>\<open>PRICING\<close> are a whole number of thousandths.\<close>

lemma PRICING_cases:
  assumes "PRICING provider = Some pricing"
  shows "\<exists>p :: int. input_tokens pricing = of_int p / 1000
                     \<and> output_tokens pricing = of_int p / 1000"
proof -
  have "pricing = \<lparr> input_tokens = 2 / 1000, output_tokens = 2 / 1000 \<rparr>
        \<or> pricing = \<lparr> input_tokens = 3 / 1000, output_tokens = 3 / 1000 \<rparr>"
    using assms by (auto simp: PRICING_def split: if_splits)
  then show ?thesis
  proof
    assume "pricing = \<lparr> input_tokens = 2 / 1000, output_tokens = 2 / 1000 \<rparr>"
    then have "input_tokens pricing = of_int 2 / 1000
               \<and> output_tokens pricing = of_int 2 / 1000" by simp
    then show ?thesis by blast
  next
    assume "pricing = \<lparr> input_tokens = 3 / 1000, output_tokens = 3 / 1000 \<rparr>"
    then have "input_tokens pricing = of_int 3 / 1000
               \<and> output_tokens pricing = of_int 3 / 1000" by simp
    then show ?thesis by blast
  qed
qed

text \<open>
  The rounding of \<^verbatim>\<open>quantize\<close> is half-even: a tie goes to the even neighbour, where
  the specification's half-up rounding goes up. With the prices of \<^verbatim>\<open>PRICING\<close> the sum
  is a whole number of millionths and nothing is rounded.
\<close>

lemma quantize_is_half_even:
  "quantize (5 / 10000000) (1 / 1000000) = 0 \<and> round6 (5 / 10000000) = 1 / 1000000
   \<and> quantize (15 / 10000000) (1 / 1000000) = 2 / 1000000"
  by (simp add: quantize_def ROUND_HALF_EVEN_def round6_def round_half_up_def Let_def)



section \<open>The resilient caller\<close>

subsection \<open>What one attempt writes\<close>

lemma log_provider_call_fields [simp]:
  "provider_calls (log_provider_call c p n st l s) =
     provider_calls s @ [\<lparr> pc_correlation_id = c, pc_provider = p, pc_attempt_number = n,
                            pc_status = st, pc_latency_ms = l \<rparr>]"
  "sleeps (log_provider_call c p n st l s) = sleeps s"
  "messages (log_provider_call c p n st l s) = messages s"
  "usage_events (log_provider_call c p n st l s) = usage_events s"
  "idempotency_keys (log_provider_call c p n st l s) = idempotency_keys s"
  by (simp_all add: log_provider_call_def)

lemma asyncio_sleep_fields [simp]:
  "provider_calls (asyncio_sleep p k ms s) = provider_calls s"
  "sleeps (asyncio_sleep p k ms s) =
     sleeps s @ [\<lparr> sl_provider = p, sl_after_attempt = k, sl_ms = ms \<rparr>]"
  "messages (asyncio_sleep p k ms s) = messages s"
  "usage_events (asyncio_sleep p k ms s) = usage_events s"
  "idempotency_keys (asyncio_sleep p k ms s) = idempotency_keys s"
  by (simp_all add: asyncio_sleep_def)

lemma respect_retry_after_fields [simp]:
  "provider_calls (respect_retry_after p k e s) = provider_calls s"
  "messages (respect_retry_after p k e s) = messages s"
  "usage_events (respect_retry_after p k e s) = usage_events s"
  "idempotency_keys (respect_retry_after p k e s) = idempotency_keys s"
  by (simp_all add: respect_retry_after_def split: vendor_exception.splits)

lemma call_attempt_fst [simp]:
  "fst (call_attempt v r c n k s) = attempt_outcome v r k"
  by (simp add: call_attempt_def attempt_outcome_def Let_def split: sum.splits)

lemma call_attempt_tables [simp]:
  "messages (snd (call_attempt v r c n k s)) = messages s"
  "usage_events (snd (call_attempt v r c n k s)) = usage_events s"
  "idempotency_keys (snd (call_attempt v r c n k s)) = idempotency_keys s"
  by (simp_all add: call_attempt_def Let_def split: sum.splits)

lemma call_attempt_calls:
  "provider_calls (snd (call_attempt v r c n k s)) =
     provider_calls s @
       [\<lparr> pc_correlation_id = c, pc_provider = va_provider v, pc_attempt_number = n,
          pc_status = (case attempt_outcome v r k of
                         Inr x \<Rightarrow> success
                       | Inl e \<Rightarrow> if retries v r k then retry else error),
          pc_latency_ms = vc_elapsed_ms (call_with_timeout v r k) \<rparr>]"
  by (simp add: call_attempt_def attempt_outcome_def retries_def Let_def split: sum.splits)

lemma call_attempt_audit_retry:
  "retries v r k \<Longrightarrow>
   map audit_line (provider_calls (snd (call_attempt v r c n k s)))
     = map audit_line (provider_calls s) @ [(va_provider v, n, retry)]"
  by (auto simp: call_attempt_calls audit_line_def retries_def split: sum.splits)

lemma call_attempt_audit_error:
  "attempt_outcome v r k = Inl e \<Longrightarrow> \<not> retries v r k \<Longrightarrow>
   map audit_line (provider_calls (snd (call_attempt v r c n k s)))
     = map audit_line (provider_calls s) @ [(va_provider v, n, error)]"
  by (simp add: call_attempt_calls audit_line_def)

lemma call_attempt_audit_success:
  "attempt_outcome v r k = Inr x \<Longrightarrow>
   map audit_line (provider_calls (snd (call_attempt v r c n k s)))
     = map audit_line (provider_calls s) @ [(va_provider v, n, success)]"
  by (simp add: call_attempt_calls audit_line_def)

lemma waited_after_log [simp]:
  "waited_after p j (log_provider_call c q n st l s) = waited_after p j s"
  by (simp add: waited_after_def)

lemma waited_after_sleep [simp]:
  "waited_after p j (asyncio_sleep q k ms s) =
     waited_after p j s + (if q = p \<and> k = j then ms else 0)"
  by (simp add: waited_after_def)

lemma waited_after_respect [simp]:
  "waited_after p j (respect_retry_after q k e s) =
     waited_after p j s + (if q = p \<and> k = j then retry_after_of (Inl e) else 0)"
  by (simp add: respect_retry_after_def retry_after_of_def split: vendor_exception.splits)

lemma call_attempt_waited:
  "waited_after p j (snd (call_attempt v r c n k s)) =
     waited_after p j s
       + (if va_provider v = p \<and> k = j then retry_after_of (attempt_outcome v r k) else 0)"
  by (simp add: call_attempt_def attempt_outcome_def Let_def retry_after_of_def
           split: sum.splits)

subsection \<open>The retry loop, one step at a time\<close>

lemma retry_from_unfold:
  "retry_from v r c n k s =
     (if retries v r k
      then retry_from v r c (Suc n) (Suc k)
             (asyncio_sleep (va_provider v) k (backoff_ms k) (snd (call_attempt v r c n k s)))
      else (attempt_outcome v r k, snd (call_attempt v r c n k s)))"
proof -
  obtain res s1 where p: "call_attempt v r c n k s = (res, s1)"
    by (cases "call_attempt v r c n k s")
  then have res: "res = attempt_outcome v r k"
    using call_attempt_fst [of v r c n k s] by simp
  show ?thesis
    apply (subst retry_from.simps)
    using p res by (auto simp: retries_def split: sum.splits)
qed

lemma retry_from_again:
  "retries v r k \<Longrightarrow>
   retry_from v r c n k s =
     retry_from v r c (Suc n) (Suc k)
       (asyncio_sleep (va_provider v) k (backoff_ms k) (snd (call_attempt v r c n k s)))"
  by (subst retry_from_unfold) simp

lemma retry_from_done:
  "\<not> retries v r k \<Longrightarrow>
   retry_from v r c n k s = (attempt_outcome v r k, snd (call_attempt v r c n k s))"
  by (subst retry_from_unfold) simp

lemma retries_less: "retries v r k \<Longrightarrow> k < max_attempts"
  by (auto simp: retries_def stop_after_attempt_def split: sum.splits)

lemma not_retries_last [simp]: "\<not> retries v r max_attempts"
  by (simp add: retries_def stop_after_attempt_def split: sum.splits)

lemma retry_from_induct [case_names step]:
  assumes "\<And>v r c n k s.
             (retries v r k \<Longrightarrow>
                P v r c (Suc n) (Suc k)
                  (asyncio_sleep (va_provider v) k (backoff_ms k)
                     (snd (call_attempt v r c n k s)))) \<Longrightarrow> P v r c n k s"
  shows "P v r c n k s"
proof (induction v r c n k s rule: retry_from.induct)
  case (1 v r c n k s)
  show ?case
  proof (rule assms)
    assume t: "retries v r k"
    obtain res s1 where p: "call_attempt v r c n k s = (res, s1)"
      by (cases "call_attempt v r c n k s")
    from t obtain e where
      e: "res = Inl e" "retry_if_exception_type e \<and> \<not> stop_after_attempt max_attempts k"
      using p call_attempt_fst [of v r c n k s] by (auto simp: retries_def split: sum.splits)
    from "1.IH" [OF p [symmetric] e(1) e(2)] p
    show "P v r c (Suc n) (Suc k)
            (asyncio_sleep (va_provider v) k (backoff_ms k) (snd (call_attempt v r c n k s)))"
      by simp
  qed
qed

text \<open>The caller writes to the audit log and waits; it touches no other table.\<close>

lemma retry_from_tables:
  "messages (snd (retry_from v r c n k s)) = messages s \<and>
   usage_events (snd (retry_from v r c n k s)) = usage_events s \<and>
   idempotency_keys (snd (retry_from v r c n k s)) = idempotency_keys s"
proof (induction v r c n k s rule: retry_from_induct)
  case (step v r c n k s)
  show ?case
  proof (cases "retries v r k")
    case True
    with step [OF True] show ?thesis by (simp add: retry_from_again)
  next
    case False
    then show ?thesis by (simp add: retry_from_done)
  qed
qed

text \<open>The result of a retry run depends on the adapter only.\<close>

lemma retry_from_result:
  "fst (retry_from v r c n k s) = fst (retry_from v r c' n' k s')"
proof (induction v r c n k s arbitrary: c' n' s' rule: retry_from_induct)
  case (step v r c n k s)
  show ?case
  proof (cases "retries v r k")
    case True
    show ?thesis
      unfolding retry_from_again [OF True, of c n s] retry_from_again [OF True, of c' n' s']
      by (rule step [OF True])
  next
    case False
    show ?thesis
      unfolding retry_from_done [OF False, of c n s] retry_from_done [OF False, of c' n' s']
      by simp
  qed
qed

text \<open>
  The rows of one retry run: at least one and at most as many as attempts remain, all of
  the adapter's provider, numbered upwards from \<open>n\<close>, every row but the last a
  \<^verbatim>\<open>retry\<close>, the last a \<^verbatim>\<open>success\<close> or an \<^verbatim>\<open>error\<close> as the run ends.
\<close>

lemma retry_from_calls:
  "\<exists>rows. provider_calls (snd (retry_from v r c n k s)) = provider_calls s @ rows
     \<and> rows \<noteq> []
     \<and> map pc_attempt_number rows = [n ..< n + length rows]
     \<and> (\<forall>x \<in> set rows. pc_provider x = va_provider v \<and> pc_correlation_id x = c)
     \<and> map pc_status rows =
         replicate (length rows - 1) retry
           @ [case fst (retry_from v r c n k s) of Inr x \<Rightarrow> success | Inl e \<Rightarrow> error]
     \<and> (k \<le> max_attempts \<longrightarrow> k + length rows \<le> Suc max_attempts)"
proof (induction v r c n k s rule: retry_from_induct)
  case (step v r c n k s)
  let ?row = "\<lparr> pc_correlation_id = c, pc_provider = va_provider v, pc_attempt_number = n,
          pc_status = (case attempt_outcome v r k of
                         Inr x \<Rightarrow> success
                       | Inl e \<Rightarrow> if retries v r k then retry else error),
          pc_latency_ms = vc_elapsed_ms (call_with_timeout v r k) \<rparr>"
  let ?s1 = "snd (call_attempt v r c n k s)"
  have s1: "provider_calls ?s1 = provider_calls s @ [?row]"
    by (rule call_attempt_calls)
  show ?case
  proof (cases "retries v r k")
    case True
    let ?s2 = "asyncio_sleep (va_provider v) k (backoff_ms k) ?s1"
    from step [OF True] obtain rows where
      rows: "provider_calls (snd (retry_from v r c (Suc n) (Suc k) ?s2))
               = provider_calls ?s2 @ rows"
        "rows \<noteq> []"
        "map pc_attempt_number rows = [Suc n ..< Suc n + length rows]"
        "\<forall>x \<in> set rows. pc_provider x = va_provider v \<and> pc_correlation_id x = c"
        "map pc_status rows = replicate (length rows - 1) retry
           @ [case fst (retry_from v r c (Suc n) (Suc k) ?s2) of
                Inr x \<Rightarrow> success | Inl e \<Rightarrow> error]"
        "Suc k \<le> max_attempts \<longrightarrow> Suc k + length rows \<le> Suc max_attempts"
      by blast
    have unf: "retry_from v r c n k s = retry_from v r c (Suc n) (Suc k) ?s2"
      by (rule retry_from_again [OF True])
    have st: "pc_status ?row = retry"
      using True by (auto simp: retries_def split: sum.splits)
    have klt: "k < max_attempts"
      by (rule retries_less [OF True])
    have rep: "replicate (length (?row # rows) - 1) retry
                 = retry # replicate (length rows - 1) retry"
      using rows(2) by (cases rows) simp_all
    have "provider_calls (snd (retry_from v r c n k s)) = provider_calls s @ (?row # rows)"
      using unf rows(1) s1 by simp
    moreover have "map pc_attempt_number (?row # rows) = [n ..< n + length (?row # rows)]"
    proof -
      have "[n ..< n + length (?row # rows)] = n # [Suc n ..< Suc n + length rows]"
        by (simp add: upt_conv_Cons del: upt_Suc)
      with rows(3) show ?thesis by simp
    qed
    moreover have "\<forall>x \<in> set (?row # rows).
                     pc_provider x = va_provider v \<and> pc_correlation_id x = c"
      using rows(4) by simp
    moreover have "map pc_status (?row # rows) = replicate (length (?row # rows) - 1) retry
           @ [case fst (retry_from v r c n k s) of Inr x \<Rightarrow> success | Inl e \<Rightarrow> error]"
      unfolding rep using rows(5) st unf by simp
    moreover have "k \<le> max_attempts \<longrightarrow> k + length (?row # rows) \<le> Suc max_attempts"
      using rows(6) klt by simp
    ultimately show ?thesis by blast
  next
    case False
    have unf: "retry_from v r c n k s = (attempt_outcome v r k, ?s1)"
      by (rule retry_from_done [OF False])
    have st: "pc_status ?row
                = (case attempt_outcome v r k of Inr x \<Rightarrow> success | Inl e \<Rightarrow> error)"
      using False by (auto split: sum.splits)
    have "provider_calls (snd (retry_from v r c n k s)) = provider_calls s @ [?row]"
      using unf s1 by simp
    moreover have "map pc_status [?row] = replicate (length [?row] - 1) retry
           @ [case fst (retry_from v r c n k s) of Inr x \<Rightarrow> success | Inl e \<Rightarrow> error]"
      using st unf by simp
    moreover have "map pc_attempt_number [?row] = [n ..< n + length [?row]]" by simp
    moreover have "\<forall>x \<in> set [?row].
                     pc_provider x = va_provider v \<and> pc_correlation_id x = c" by simp
    moreover have "k \<le> max_attempts \<longrightarrow> k + length [?row] \<le> Suc max_attempts" by simp
    ultimately show ?thesis by blast
  qed
qed

lemma call_with_retry_result:
  "fst (call_with_retry v r c n s) = fst (call_with_retry v r c' n' s')"
  unfolding call_with_retry_def by (rule retry_from_result)

lemma call_with_retry_calls:
  "\<exists>rows. provider_calls (snd (call_with_retry v r c n s)) = provider_calls s @ rows
     \<and> rows \<noteq> [] \<and> length rows \<le> max_attempts
     \<and> map pc_attempt_number rows = [n ..< n + length rows]
     \<and> (\<forall>x \<in> set rows. pc_provider x = va_provider v \<and> pc_correlation_id x = c
                         \<and> pc_status x \<noteq> fallback)
     \<and> map pc_status rows =
         replicate (length rows - 1) retry
           @ [case fst (call_with_retry v r c n s) of Inr x \<Rightarrow> success | Inl e \<Rightarrow> error]"
proof -
  from retry_from_calls [of v r c n 1 s] obtain rows where
    rows: "provider_calls (snd (retry_from v r c n 1 s)) = provider_calls s @ rows"
      "rows \<noteq> []"
      "map pc_attempt_number rows = [n ..< n + length rows]"
      "\<forall>x \<in> set rows. pc_provider x = va_provider v \<and> pc_correlation_id x = c"
      "map pc_status rows = replicate (length rows - 1) retry
         @ [case fst (retry_from v r c n 1 s) of Inr x \<Rightarrow> success | Inl e \<Rightarrow> error]"
      "1 \<le> max_attempts \<longrightarrow> 1 + length rows \<le> Suc max_attempts"
    by blast
  have len: "length rows \<le> max_attempts"
    using rows(6) by (simp add: max_attempts_def)
  have "set (map pc_status rows) \<subseteq> {retry, success, error}"
    unfolding rows(5) by (auto split: sum.splits)
  then have "\<forall>x \<in> set rows. pc_status x \<noteq> fallback"
    by auto
  with rows len show ?thesis
    unfolding call_with_retry_def by blast
qed

lemma call_with_retry_tables [simp]:
  "messages (snd (call_with_retry v r c n s)) = messages s"
  "usage_events (snd (call_with_retry v r c n s)) = usage_events s"
  "idempotency_keys (snd (call_with_retry v r c n s)) = idempotency_keys s"
  using retry_from_tables [of v r c n 1 s] by (simp_all add: call_with_retry_def)

subsection \<open>The scenarios, evaluated\<close>

lemmas scenario_defs =
  vendorA_down_def vendorA_flaky_def vendorB_up_def vendorB_limited_def vendorB_down_def
  vendorC_up_def http_500_def rate_limited_def answers_def empty_backend_def

lemmas caller_defs =
  call_with_retry_def call_attempt_def call_with_timeout_def attempt_outcome_def retries_def
  retry_if_exception_type_def stop_after_attempt_def max_attempts_def timeout_ms_def
  log_provider_call_def asyncio_sleep_def respect_retry_after_def backoff_ms_def
  wait_exponential_def

lemma vendorB_limited_run:
  "call_with_retry vendorB_limited invoice_request ''abc-123'' 1 empty_backend =
     (Inr answer,
      \<lparr> provider_calls =
          [\<lparr> pc_correlation_id = ''abc-123'', pc_provider = ''vendorB'', pc_attempt_number = 1,
             pc_status = retry, pc_latency_ms = 15 \<rparr>,
           \<lparr> pc_correlation_id = ''abc-123'', pc_provider = ''vendorB'', pc_attempt_number = 2,
             pc_status = success, pc_latency_ms = 340 \<rparr>],
        sleeps =
          [\<lparr> sl_provider = ''vendorB'', sl_after_attempt = 1, sl_ms = 2000 \<rparr>,
           \<lparr> sl_provider = ''vendorB'', sl_after_attempt = 1, sl_ms = 1000 \<rparr>],
        messages = [], usage_events = [], idempotency_keys = [] \<rparr>)"
  by (simp add: retry_from_unfold caller_defs scenario_defs Let_def)

lemma vendorA_down_exhausts:
  "exhausts vendorA_down invoice_request (VendorAHTTPError 500 ''Internal Server Error'')"
  by (auto simp: exhausts_def caller_defs scenario_defs)

lemma vendorB_down_exhausts:
  "exhausts vendorB_down invoice_request (VendorBRateLimitError 2000)"
  by (auto simp: exhausts_def caller_defs scenario_defs)

subsection \<open>The delay before an attempt\<close>

lemma retry_from_waited_before:
  "j < k \<Longrightarrow> waited_after p j (snd (retry_from v r c n k s)) = waited_after p j s"
proof (induction v r c n k s rule: retry_from_induct)
  case (step v r c n k s)
  show ?case
  proof (cases "retries v r k")
    case True
    from step(1) [OF True] step.prems
    have "waited_after p j (snd (retry_from v r c n k s))
            = waited_after p j (asyncio_sleep (va_provider v) k (backoff_ms k)
                                  (snd (call_attempt v r c n k s)))"
      by (simp add: retry_from_again [OF True])
    also have "\<dots> = waited_after p j s"
      using step.prems by (simp add: call_attempt_waited)
    finally show ?thesis .
  next
    case False
    then show ?thesis
      using step.prems by (simp add: retry_from_done call_attempt_waited)
  qed
qed

lemma retry_from_waited:
  "k \<le> j \<Longrightarrow>
   length (provider_calls s) + (j + 2 - k)
     \<le> length (provider_calls (snd (retry_from v r c n k s))) \<Longrightarrow>
   waited_after (va_provider v) j (snd (retry_from v r c n k s)) =
     waited_after (va_provider v) j s + retry_after_of (attempt_outcome v r j) + backoff_ms j"
proof (induction v r c n k s rule: retry_from_induct)
  case (step v r c n k s)
  let ?s1 = "snd (call_attempt v r c n k s)"
  let ?s2 = "asyncio_sleep (va_provider v) k (backoff_ms k) ?s1"
  have len1: "length (provider_calls ?s1) = Suc (length (provider_calls s))"
    by (simp add: call_attempt_calls)
  show ?case
  proof (cases "retries v r k")
    case False
    with step.prems len1 show ?thesis by (simp add: retry_from_done)
  next
    case True
    have unf: "retry_from v r c n k s = retry_from v r c (Suc n) (Suc k) ?s2"
      by (rule retry_from_again [OF True])
    show ?thesis
    proof (cases "j = k")
      case True
      have "waited_after (va_provider v) j (snd (retry_from v r c n k s))
              = waited_after (va_provider v) j ?s2"
        unfolding unf using True by (intro retry_from_waited_before) simp
      also have "\<dots> = waited_after (va_provider v) j s
                         + retry_after_of (attempt_outcome v r j) + backoff_ms j"
        using True by (simp add: call_attempt_waited)
      finally show ?thesis .
    next
      case False
      with step.prems have j: "Suc k \<le> j" by simp
      have len: "length (provider_calls ?s2) + (j + 2 - Suc k)
                  \<le> length (provider_calls (snd (retry_from v r c (Suc n) (Suc k) ?s2)))"
        using step.prems(2) unf len1 j by simp
      have "waited_after (va_provider v) j (snd (retry_from v r c n k s))
            = waited_after (va_provider v) j ?s2
                + retry_after_of (attempt_outcome v r j) + backoff_ms j"
        unfolding unf using step.IH [OF True j len] .
      also have "waited_after (va_provider v) j ?s2 = waited_after (va_provider v) j s"
        using False by (simp add: call_attempt_waited)
      finally show ?thesis .
    qed
  qed
qed

lemma backoff_ms_eq: "0 < k \<Longrightarrow> backoff_ms k = min (1000 * 2 ^ (k - 1)) 10000"
  by (simp add: backoff_ms_def wait_exponential_def min_def max_def)




subsection \<open>Adapters that exhaust their attempts\<close>

lemma exhausts_retries:
  assumes "exhausts v r e"
  shows "retries v r 1" "retries v r 2" "\<not> retries v r 3" "attempt_outcome v r 3 = Inl e"
  using assms not_retries_last [of v r] by (simp_all add: exhausts_def max_attempts_def)

text \<open>An adapter that exhausts its attempts: three rows, and the last exception is raised.\<close>

lemma exhausts_run:
  assumes "exhausts v r e"
  shows "fst (call_with_retry v r c n s) = Inl e"
    and "map audit_line (provider_calls (snd (call_with_retry v r c n s)))
           = map audit_line (provider_calls s)
               @ [(va_provider v, n, retry), (va_provider v, Suc n, retry),
                  (va_provider v, Suc (Suc n), error)]"
proof -
  note e = exhausts_retries [OF assms]
  have two: "Suc 1 = 2" and three: "Suc 2 = 3" by simp_all
  let ?s1 = "asyncio_sleep (va_provider v) 1 (backoff_ms 1) (snd (call_attempt v r c n 1 s))"
  let ?s2 = "asyncio_sleep (va_provider v) 2 (backoff_ms 2)
               (snd (call_attempt v r c (Suc n) 2 ?s1))"
  have run: "call_with_retry v r c n s
               = (Inl e, snd (call_attempt v r c (Suc (Suc n)) 3 ?s2))"
    unfolding call_with_retry_def
    by (simp only: retry_from_again [OF e(1)] two retry_from_again [OF e(2)] three
          retry_from_done [OF e(3)] e(4))
  show "fst (call_with_retry v r c n s) = Inl e"
    by (simp add: run)
  show "map audit_line (provider_calls (snd (call_with_retry v r c n s)))
           = map audit_line (provider_calls s)
               @ [(va_provider v, n, retry), (va_provider v, Suc n, retry),
                  (va_provider v, Suc (Suc n), error)]"
    unfolding run snd_conv call_attempt_audit_error [OF e(4) e(3)] asyncio_sleep_fields
      call_attempt_audit_retry [OF e(2)] call_attempt_audit_retry [OF e(1)]
    by simp
qed

subsection \<open>The fallback\<close>

lemma call_with_fallback_primary_ok:
  "fst (call_with_retry primary request c 1 s) = Inr response \<Longrightarrow>
   call_with_fallback primary fallback_opt request c s
     = (Inr (response, va_provider primary), snd (call_with_retry primary request c 1 s))"
  by (cases "call_with_retry primary request c 1 s") (simp add: call_with_fallback_def)

lemma call_with_fallback_none:
  "fst (call_with_retry primary request c 1 s) = Inl e \<Longrightarrow>
   call_with_fallback primary None request c s
     = (Inl (AllVendorsFailed e None), snd (call_with_retry primary request c 1 s))"
  by (cases "call_with_retry primary request c 1 s") (simp add: call_with_fallback_def)

lemma call_with_fallback_some:
  assumes "fst (call_with_retry primary request c 1 s) = Inl e"
  shows "call_with_fallback primary (Some fb) request c s
     = (let run = call_with_retry fb request c 2
                    (log_fallback_event fb c (snd (call_with_retry primary request c 1 s)))
        in (case fst run of
              Inr response \<Rightarrow> Inr (response, va_provider fb)
            | Inl fallback_error \<Rightarrow> Inl (AllVendorsFailed e (Some fallback_error)),
            snd run))"
proof -
  obtain res s1 where p: "call_with_retry primary request c 1 s = (res, s1)"
    by (cases "call_with_retry primary request c 1 s")
  obtain res2 s2 where q: "call_with_retry fb request c 2 (log_fallback_event fb c s1) = (res2, s2)"
    by (cases "call_with_retry fb request c 2 (log_fallback_event fb c s1)")
  from assms p q show ?thesis
    by (simp add: call_with_fallback_def Let_def split: sum.splits)
qed

lemma call_with_fallback_tables [simp]:
  "messages (snd (call_with_fallback primary fallback_opt request c s)) = messages s"
  "usage_events (snd (call_with_fallback primary fallback_opt request c s)) = usage_events s"
  "idempotency_keys (snd (call_with_fallback primary fallback_opt request c s))
     = idempotency_keys s"
proof -
  have "messages (snd (call_with_fallback primary fallback_opt request c s)) = messages s
      \<and> usage_events (snd (call_with_fallback primary fallback_opt request c s)) = usage_events s
      \<and> idempotency_keys (snd (call_with_fallback primary fallback_opt request c s))
          = idempotency_keys s"
  proof (cases "fst (call_with_retry primary request c 1 s)")
    case (Inr response)
    then show ?thesis by (simp add: call_with_fallback_primary_ok)
  next
    case (Inl e)
    show ?thesis
    proof (cases fallback_opt)
      case None
      with Inl show ?thesis by (simp add: call_with_fallback_none)
    next
      case (Some fb)
      with Inl show ?thesis
        by (simp add: call_with_fallback_some Let_def log_fallback_event_def)
    qed
  qed
  then show
    "messages (snd (call_with_fallback primary fallback_opt request c s)) = messages s"
    "usage_events (snd (call_with_fallback primary fallback_opt request c s)) = usage_events s"
    "idempotency_keys (snd (call_with_fallback primary fallback_opt request c s))
       = idempotency_keys s"
    by simp_all
qed



text \<open>The audit example of the architecture document, row by row.\<close>

lemma audit_example:
  "provider_calls (snd (call_with_fallback vendorA_down (Some vendorB_up) invoice_request
                          ''abc-123'' empty_backend)) =
     [\<lparr> pc_correlation_id = ''abc-123'', pc_provider = ''vendorA'', pc_attempt_number = 1,
        pc_status = retry, pc_latency_ms = 120 \<rparr>,
      \<lparr> pc_correlation_id = ''abc-123'', pc_provider = ''vendorA'', pc_attempt_number = 2,
        pc_status = retry, pc_latency_ms = 250 \<rparr>,
      \<lparr> pc_correlation_id = ''abc-123'', pc_provider = ''vendorA'', pc_attempt_number = 3,
        pc_status = error, pc_latency_ms = 180 \<rparr>,
      \<lparr> pc_correlation_id = ''abc-123'', pc_provider = ''vendorB'', pc_attempt_number = 1,
        pc_status = fallback, pc_latency_ms = 0 \<rparr>,
      \<lparr> pc_correlation_id = ''abc-123'', pc_provider = ''vendorB'', pc_attempt_number = 2,
        pc_status = success, pc_latency_ms = 340 \<rparr>]"
  by (simp add: call_with_fallback_def log_fallback_event_def retry_from_unfold caller_defs
        scenario_defs Let_def)




section \<open>The message orchestrator\<close>

subsection \<open>The three ways a send can end\<close>

lemmas orchestrator_defs =
  handle_message_def call_with_fallback_def log_fallback_event_def vendor_request_of_def
  user_message_row_def assistant_message_row_def usage_event_row_def response_of_def
  db_commit_def db_add_message_def db_add_usage_event_def new_session_def
  calculate_cost_def PRICING_def quantize_def ROUND_HALF_EVEN_def
  send_of_def agent_of_def answer_def

text \<open>
  Every vendor failed, the cost calculation raised, or the session was committed.
\<close>

lemma handle_message_vendors_failed:
  assumes "fst (call_with_fallback (ag_primary (sr_agent req)) (ag_fallback (sr_agent req))
                  (vendor_request_of req) (sr_correlation_id req) s) = Inl e"
  shows "handle_message req s
           = (Inl e, snd (call_with_fallback (ag_primary (sr_agent req))
                            (ag_fallback (sr_agent req)) (vendor_request_of req)
                            (sr_correlation_id req) s))"
  using assms
  by (cases "call_with_fallback (ag_primary (sr_agent req)) (ag_fallback (sr_agent req))
               (vendor_request_of req) (sr_correlation_id req) s")
     (simp add: handle_message_def Let_def)

lemma handle_message_cost_failed:
  assumes "fst (call_with_fallback (ag_primary (sr_agent req)) (ag_fallback (sr_agent req))
                  (vendor_request_of req) (sr_correlation_id req) s) = Inr (response, provider)"
    and "calculate_cost provider (nr_tokens_in response) (nr_tokens_out response) = Inl e"
  shows "handle_message req s
           = (Inl e, snd (call_with_fallback (ag_primary (sr_agent req))
                            (ag_fallback (sr_agent req)) (vendor_request_of req)
                            (sr_correlation_id req) s))"
  using assms
  by (cases "call_with_fallback (ag_primary (sr_agent req)) (ag_fallback (sr_agent req))
               (vendor_request_of req) (sr_correlation_id req) s")
     (simp add: handle_message_def Let_def)

lemma handle_message_done:
  assumes "fst (call_with_fallback (ag_primary (sr_agent req)) (ag_fallback (sr_agent req))
                  (vendor_request_of req) (sr_correlation_id req) s) = Inr (response, provider)"
    and "calculate_cost provider (nr_tokens_in response) (nr_tokens_out response) = Inr cost"
  shows "fst (handle_message req s) = Inr (response_of req response provider cost)"
    and "messages (snd (handle_message req s))
           = messages s @ [user_message_row req, assistant_message_row req response provider]"
    and "usage_events (snd (handle_message req s))
           = usage_events s @ [usage_event_row req response provider cost]"
    and "idempotency_keys (snd (handle_message req s)) = idempotency_keys s"
    and "provider_calls (snd (handle_message req s))
           = provider_calls (snd (call_with_fallback (ag_primary (sr_agent req))
                            (ag_fallback (sr_agent req)) (vendor_request_of req)
                            (sr_correlation_id req) s))"
proof -
  obtain res s1 where p: "call_with_fallback (ag_primary (sr_agent req))
      (ag_fallback (sr_agent req)) (vendor_request_of req) (sr_correlation_id req) s = (res, s1)"
    by (cases "call_with_fallback (ag_primary (sr_agent req)) (ag_fallback (sr_agent req))
               (vendor_request_of req) (sr_correlation_id req) s")
  have t: "messages s1 = messages s" "usage_events s1 = usage_events s"
    "idempotency_keys s1 = idempotency_keys s"
    using call_with_fallback_tables [of "ag_primary (sr_agent req)" "ag_fallback (sr_agent req)"
            "vendor_request_of req" "sr_correlation_id req" s] p by simp_all
  have h: "handle_message req s
             = (Inr (response_of req response provider cost),
                db_commit (db_add_usage_event (usage_event_row req response provider cost)
                             (db_add_message (assistant_message_row req response provider)
                                (db_add_message (user_message_row req) new_session))) s1)"
    using assms p by (simp add: handle_message_def Let_def)
  show "fst (handle_message req s) = Inr (response_of req response provider cost)"
    by (simp add: h)
  show "messages (snd (handle_message req s))
           = messages s @ [user_message_row req, assistant_message_row req response provider]"
    by (simp add: h t db_commit_def db_add_message_def db_add_usage_event_def new_session_def)
  show "usage_events (snd (handle_message req s))
           = usage_events s @ [usage_event_row req response provider cost]"
    by (simp add: h t db_commit_def db_add_message_def db_add_usage_event_def new_session_def)
  show "idempotency_keys (snd (handle_message req s)) = idempotency_keys s"
    by (simp add: h t db_commit_def)
  show "provider_calls (snd (handle_message req s))
           = provider_calls (snd (call_with_fallback (ag_primary (sr_agent req))
                            (ag_fallback (sr_agent req)) (vendor_request_of req)
                            (sr_correlation_id req) s))"
    by (simp add: h p db_commit_def)
qed

lemma handle_message_keys [simp]:
  "idempotency_keys (snd (handle_message req s)) = idempotency_keys s"
proof (cases "fst (call_with_fallback (ag_primary (sr_agent req)) (ag_fallback (sr_agent req))
                  (vendor_request_of req) (sr_correlation_id req) s)")
  case (Inl e)
  then show ?thesis by (simp add: handle_message_vendors_failed)
next
  case (Inr answered)
  obtain response provider where a: "answered = (response, provider)" by (cases answered)
  show ?thesis
  proof (cases "calculate_cost provider (nr_tokens_in response) (nr_tokens_out response)")
    case (Inl e)
    with Inr a show ?thesis by (simp add: handle_message_cost_failed)
  next
    case (Inr cost)
    from handle_message_done(4) [OF \<open>fst _ = Inr answered\<close> [unfolded a] Inr]
    show ?thesis .
  qed
qed

lemma cache_store_tables:
  "messages (snd (cache_store key req response s)) = messages s"
  "usage_events (snd (cache_store key req response s)) = usage_events s"
  by (simp_all add: cache_store_def cache_response_def split: option.splits sum.splits)

text \<open>
  C7. A send is all or nothing: either it returns a response and both the assistant
  message and its usage event have been written (together with the user message), or it
  fails and neither has been written. This holds for every execution, also for one that is
  interrupted between the insert of the message and the insert of the usage event (the
  cost calculation raises there for a provider without a price). The same holds for the
  endpoint around it, with or without an idempotency key: whatever it returns, it has
  written both rows or none.
\<close>

theorem persist_all_or_nothing:
  "((\<exists>response provider cost.
       fst (handle_message req s) = Inr (response_of req response provider cost)
       \<and> messages (snd (handle_message req s))
           = messages s @ [user_message_row req, assistant_message_row req response provider]
       \<and> usage_events (snd (handle_message req s))
           = usage_events s @ [usage_event_row req response provider cost])
    \<or> (\<exists>e. fst (handle_message req s) = Inl e
          \<and> messages (snd (handle_message req s)) = messages s
          \<and> usage_events (snd (handle_message req s)) = usage_events s))
   \<and> ((\<exists>response provider cost.
         messages (snd (send_message key req s))
           = messages s @ [user_message_row req, assistant_message_row req response provider]
         \<and> usage_events (snd (send_message key req s))
             = usage_events s @ [usage_event_row req response provider cost])
       \<or> (messages (snd (send_message key req s)) = messages s
           \<and> usage_events (snd (send_message key req s)) = usage_events s))"
proof
  show h: "(\<exists>response provider cost.
       fst (handle_message req s) = Inr (response_of req response provider cost)
       \<and> messages (snd (handle_message req s))
           = messages s @ [user_message_row req, assistant_message_row req response provider]
       \<and> usage_events (snd (handle_message req s))
           = usage_events s @ [usage_event_row req response provider cost])
    \<or> (\<exists>e. fst (handle_message req s) = Inl e
          \<and> messages (snd (handle_message req s)) = messages s
          \<and> usage_events (snd (handle_message req s)) = usage_events s)"
  proof (cases "fst (call_with_fallback (ag_primary (sr_agent req)) (ag_fallback (sr_agent req))
                  (vendor_request_of req) (sr_correlation_id req) s)")
    case (Inl e)
    then show ?thesis by (simp add: handle_message_vendors_failed)
  next
    case (Inr answered)
    obtain response provider where a: "answered = (response, provider)" by (cases answered)
    show ?thesis
    proof (cases "calculate_cost provider (nr_tokens_in response) (nr_tokens_out response)")
      case (Inl e)
      with Inr a show ?thesis by (simp add: handle_message_cost_failed)
    next
      case (Inr cost)
      from handle_message_done [OF \<open>fst _ = Inr answered\<close> [unfolded a] Inr]
      show ?thesis by blast
    qed
  qed
  obtain res s1 where p: "handle_message req s = (res, s1)" by (cases "handle_message req s")
  have snd_send: "messages (snd (send_message key req s)) = messages s
             \<and> usage_events (snd (send_message key req s)) = usage_events s
           \<or> messages (snd (send_message key req s)) = messages (snd (handle_message req s))
             \<and> usage_events (snd (send_message key req s))
                 = usage_events (snd (handle_message req s))"
    using p by (simp add: send_message_def cache_store_tables split: option.splits sum.splits)
  from h snd_send
  show "(\<exists>response provider cost.
         messages (snd (send_message key req s))
           = messages s @ [user_message_row req, assistant_message_row req response provider]
         \<and> usage_events (snd (send_message key req s))
             = usage_events s @ [usage_event_row req response provider cost])
       \<or> (messages (snd (send_message key req s)) = messages s
           \<and> usage_events (snd (send_message key req s)) = usage_events s)"
    by (elim disjE exE conjE) (simp_all, blast+)
qed

lemma priceless_send_run:
  "fst (handle_message priceless_send empty_backend) = Inl (KeyError ''vendorC'')"
  by (simp add: priceless_send_def orchestrator_defs retry_from_unfold caller_defs scenario_defs
        Let_def)

theorem persist_all_or_nothing_witness:
  "fst (handle_message priceless_send empty_backend) = Inl (KeyError ''vendorC'')
   \<and> messages (snd (handle_message priceless_send empty_backend)) = []
   \<and> usage_events (snd (handle_message priceless_send empty_backend)) = []"
proof -
  have e: "messages empty_backend = []" "usage_events empty_backend = []"
    by (simp_all add: empty_backend_def)
  from persist_all_or_nothing [of priceless_send empty_backend None] priceless_send_run e
  show ?thesis by auto
qed

subsection \<open>A primary that answers\<close>

text \<open>
  C5. When an attempt of the primary succeeds, the fallback is never invoked: the send
  gives the same result and the same state as with no fallback configured at all; every
  audit row it writes is a row of the primary, \<^verbatim>\<open>retry\<close> rows followed by one
  \<^verbatim>\<open>success\<close>; and the one usage event it writes attributes the cost to the primary.
  With VendorA failing twice and then answering and VendorB as fallback, the audit has
  two \<^verbatim>\<open>retry\<close> rows and one \<^verbatim>\<open>success\<close> row of VendorA and no row of VendorB.
\<close>

theorem primary_success_skips_fallback:
  assumes "fst (call_with_retry (ag_primary (sr_agent req)) (vendor_request_of req)
                  (sr_correlation_id req) 1 s) = Inr response"
    and "PRICING (va_provider (ag_primary (sr_agent req))) = Some pricing"
  shows "handle_message req s
           = handle_message (req \<lparr> sr_agent := (sr_agent req) \<lparr> ag_fallback := None \<rparr> \<rparr>) s
         \<and> (\<exists>rows. provider_calls (snd (handle_message req s)) = provider_calls s @ rows
               \<and> (\<forall>x \<in> set rows. pc_provider x = va_provider (ag_primary (sr_agent req))
                                   \<and> pc_status x \<noteq> fallback)
               \<and> map pc_status rows = replicate (length rows - 1) retry @ [success])
         \<and> (\<exists>u. usage_events (snd (handle_message req s)) = usage_events s @ [u]
               \<and> ue_provider u = va_provider (ag_primary (sr_agent req))
               \<and> Inr (ue_cost_usd u)
                   = calculate_cost (va_provider (ag_primary (sr_agent req)))
                       (nr_tokens_in response) (nr_tokens_out response))"
proof -
  let ?primary = "ag_primary (sr_agent req)"
  let ?request = "vendor_request_of req"
  let ?c = "sr_correlation_id req"
  let ?req' = "req \<lparr> sr_agent := (sr_agent req) \<lparr> ag_fallback := None \<rparr> \<rparr>"
  have cwf: "call_with_fallback ?primary fb ?request ?c s
               = (Inr (response, va_provider ?primary), snd (call_with_retry ?primary ?request ?c 1 s))"
    for fb
    by (rule call_with_fallback_primary_ok [OF assms(1)])
  obtain cost where cost: "calculate_cost (va_provider ?primary) (nr_tokens_in response)
                             (nr_tokens_out response) = Inr cost"
    using assms(2) by (simp add: calculate_cost_def Let_def)
  have r: "vendor_request_of ?req' = vendor_request_of req"
    "user_message_row ?req' = user_message_row req"
    "assistant_message_row ?req' = assistant_message_row req"
    "usage_event_row ?req' = usage_event_row req"
    "response_of ?req' = response_of req"
    by (simp_all add: vendor_request_of_def user_message_row_def assistant_message_row_def
          usage_event_row_def response_of_def fun_eq_iff)
  have same: "handle_message req s = handle_message ?req' s"
    by (simp add: handle_message_def Let_def cwf r cost)
  have f: "fst (call_with_fallback ?primary (ag_fallback (sr_agent req)) ?request ?c s)
             = Inr (response, va_provider ?primary)"
    by (simp add: cwf)
  note fin = handle_message_done [OF f cost]
  from call_with_retry_calls [of ?primary ?request ?c 1 s] obtain rows where
    rows: "provider_calls (snd (call_with_retry ?primary ?request ?c 1 s)) = provider_calls s @ rows"
      "\<forall>x \<in> set rows. pc_provider x = va_provider ?primary \<and> pc_correlation_id x = ?c
                         \<and> pc_status x \<noteq> fallback"
      "map pc_status rows = replicate (length rows - 1) retry
         @ [case fst (call_with_retry ?primary ?request ?c 1 s) of
              Inr x \<Rightarrow> success | Inl e \<Rightarrow> error]"
    by blast
  have audit: "\<exists>rows. provider_calls (snd (handle_message req s)) = provider_calls s @ rows
               \<and> (\<forall>x \<in> set rows. pc_provider x = va_provider ?primary \<and> pc_status x \<noteq> fallback)
               \<and> map pc_status rows = replicate (length rows - 1) retry @ [success]"
    using rows assms(1) unfolding fin(5) cwf snd_conv by auto
  have usage: "\<exists>u. usage_events (snd (handle_message req s)) = usage_events s @ [u]
               \<and> ue_provider u = va_provider ?primary
               \<and> Inr (ue_cost_usd u)
                   = calculate_cost (va_provider ?primary)
                       (nr_tokens_in response) (nr_tokens_out response)"
    using fin(3) cost by (simp add: usage_event_row_def)
  from same audit usage show ?thesis by blast
qed

lemma flaky_send_run:
  "map audit_line (provider_calls (snd (handle_message flaky_send empty_backend)))
     = [(''vendorA'', 1, retry), (''vendorA'', 2, retry), (''vendorA'', 3, success)]"
  "map ue_provider (usage_events (snd (handle_message flaky_send empty_backend))) = [''vendorA'']"
  "map ue_cost_usd (usage_events (snd (handle_message flaky_send empty_backend)))
     = [1600 / 1000000]"
  by (simp_all add: flaky_send_def orchestrator_defs retry_from_unfold caller_defs scenario_defs
        audit_line_def Let_def)

lemma flaky_send_primary:
  "fst (call_with_retry (ag_primary (sr_agent flaky_send)) (vendor_request_of flaky_send)
          (sr_correlation_id flaky_send) 1 empty_backend) = Inr answer"
  "PRICING (va_provider (ag_primary (sr_agent flaky_send)))
     = Some \<lparr> input_tokens = 2 / 1000, output_tokens = 2 / 1000 \<rparr>"
  by (simp_all add: flaky_send_def orchestrator_defs retry_from_unfold caller_defs scenario_defs
        Let_def)

theorem primary_success_skips_fallback_witness:
  "handle_message flaky_send empty_backend
     = handle_message (flaky_send \<lparr> sr_agent := (sr_agent flaky_send) \<lparr> ag_fallback := None \<rparr> \<rparr>)
         empty_backend
   \<and> map audit_line (provider_calls (snd (handle_message flaky_send empty_backend)))
       = [(''vendorA'', 1, retry), (''vendorA'', 2, retry), (''vendorA'', 3, success)]
   \<and> map ue_provider (usage_events (snd (handle_message flaky_send empty_backend)))
       = [''vendorA'']"
proof -
  from primary_success_skips_fallback [OF flaky_send_primary]
  have "handle_message flaky_send empty_backend
     = handle_message (flaky_send \<lparr> sr_agent := (sr_agent flaky_send) \<lparr> ag_fallback := None \<rparr> \<rparr>)
         empty_backend"
    by blast
  with flaky_send_run show ?thesis by blast
qed

subsection \<open>A request whose key has a live record\<close>

lemma send_message_hit:
  "k \<noteq> [] \<Longrightarrow> get_cached_response k (sr_tenant_id req) (sr_now req) s = Some cached \<Longrightarrow>
   send_message (Some k) req s = (Inr cached, s)"
  by (simp add: send_message_def cache_lookup_def cache_store_def)


lemma tenantA_lookup:
  "get_cached_response ''k1'' ''tenantA'' 2000 tenantA_stored = Some cached_body"
  "get_cached_response ''k1'' ''tenantA'' 86400999 tenantA_stored = Some cached_body"
  by (simp_all add: get_cached_response_def tenantA_stored_def empty_backend_def)


subsection \<open>The key of a dashboard send\<close>

lemma dashboard_key_eq:
  "dashboard_key (Some sid) content now = Some (''msg-'' @ number_toString now)"
  by (simp add: dashboard_key_def mutationFn_def sessionsApi_sendMessage_def
        idempotency_header_def)

lemma number_toString_example: "number_toString 1700000000123 = ''1700000000123''"
  by (simp add: number_toString.simps digit_char_def)

lemma find_snoc:
  "\<forall>x \<in> set xs. \<not> P x \<Longrightarrow> find P (xs @ [r]) = (if P r then Some r else None)"
  by (induction xs) simp_all

lemma fresh_key_no_row:
  "k \<notin> set (map ik_key rows) \<Longrightarrow>
   \<forall>x \<in> set rows. \<not> (ik_key x = k \<and> ik_tenant_id x = tenant)"
  by auto

lemma get_cached_response_fresh:
  "k \<notin> set (map ik_key (idempotency_keys s)) \<Longrightarrow> get_cached_response k tenant now s = None"
proof -
  assume "k \<notin> set (map ik_key (idempotency_keys s))"
  then have "find (\<lambda>r. ik_key r = k \<and> ik_tenant_id r = tenant) (idempotency_keys s) = None"
    by (auto simp: find_None_iff)
  then show ?thesis by (simp add: get_cached_response_def)
qed

text \<open>
  A request with a key that no row has yet: when it succeeds, its response is cached
  under the key for 24 hours.
\<close>

lemma send_message_stores:
  assumes "k \<noteq> []" and "k \<notin> set (map ik_key (idempotency_keys s))"
    and "send_message (Some k) req s = (Inr body, s1)"
  shows "idempotency_keys s1 = idempotency_keys s @
           [\<lparr> ik_key = k, ik_tenant_id = sr_tenant_id req, ik_response = body,
              ik_created_at = sr_now req, ik_expires_at = sr_now req + ttl_ms 24 \<rparr>]"
proof -
  obtain res sh where h: "handle_message req s = (res, sh)" by (cases "handle_message req s")
  have keys: "idempotency_keys sh = idempotency_keys s"
    using handle_message_keys [of req s] h by simp
  have miss: "get_cached_response k (sr_tenant_id req) (sr_now req) s = None"
    by (rule get_cached_response_fresh [OF assms(2)])
  from assms(3) have res: "res = Inr body"
    using assms(1) miss h
    by (auto simp: send_message_def cache_lookup_def cache_store_def cache_response_def keys split: sum.splits if_splits)
  from assms(3) show ?thesis
    using assms(1,2) miss h res keys
    by (auto simp: send_message_def cache_lookup_def cache_store_def cache_response_def split: if_splits)
qed


lemma first_send_run:
  "fst (send_message (Some (''msg-'' @ number_toString 1700000000123)) first_send empty_backend)
     = Inr \<lparr> rb_message_id = ''a-1'', rb_content = ''Paid.'', rb_provider_used = ''vendorB'',
             rb_tokens_in = 500, rb_tokens_out = 300, rb_latency_ms = 340,
             rb_cost_usd = 2400 / 1000000, rb_correlation_id = ''abc-123'' \<rparr>"
  by (simp add: send_message_def cache_lookup_def cache_store_def get_cached_response_def cache_response_def first_send_def
        orchestrator_defs retry_from_unfold caller_defs scenario_defs Let_def)



subsection \<open>Two tenants and one key\<close>

text \<open>
  C8 on the table as the source declares it. The primary key of \<^verbatim>\<open>idempotency_keys\<close>
  is the column \<^verbatim>\<open>key\<close> alone. After tenant A has cached a response under \<^verbatim>\<open>k1\<close>,
  the insert of tenant B under the same key violates the constraint: B has no entry of
  its own, and B's request, already billed, ends in the error.
\<close>

theorem same_key_other_tenant:
  "cache_response (Some ''k1'') ''tenantA'' cached_body 24 1000 empty_backend = Inr tenantA_stored
   \<and> cache_response (Some ''k1'') ''tenantB'' other_body 24 2000 tenantA_stored
       = Inl (IntegrityError ''k1'')
   \<and> get_cached_response ''k1'' ''tenantB'' 3000 tenantA_stored = None
   \<and> fst (send_message (Some ''k1'') tenantB_send tenantA_stored) = Inl (IntegrityError ''k1'')
   \<and> map ue_tenant_id (usage_events (snd (send_message (Some ''k1'') tenantB_send tenantA_stored)))
       = [''tenantB'']"
  by (simp add: send_message_def cache_lookup_def cache_store_def cache_response_def get_cached_response_def tenantA_stored_def
        ttl_ms_def tenantB_send_def orchestrator_defs retry_from_unfold caller_defs
        scenario_defs Let_def)

end
